theory Spec2Isabelle
  imports Main "HOL-Library.Sublist"
begin

section \<open>Python values, exceptions and the standard-library functions the module calls\<close>

text \<open>
  The module \<^verbatim>\<open>src/tool/investigation_tools.py\<close> receives JSON-shaped Python values
  from the platform client and turns them into text. A value is \<^verbatim>\<open>None\<close>, a
  \<^verbatim>\<open>bool\<close>, an \<^verbatim>\<open>int\<close> (unbounded), a \<^verbatim>\<open>str\<close>, a \<^verbatim>\<open>list\<close> or a \<^verbatim>\<open>dict\<close> with
  string keys. A dict is an association list in insertion order, the order
  \<^verbatim>\<open>json.dumps\<close> prints it in. Floats are left out; a character of a \<^verbatim>\<open>str\<close> is a
  code point below 256.
\<close>

datatype pyval =
    PyNone
  | PyBool bool
  | PyInt int
  | PyStr string
  | PyList "pyval list"
  | PyDict "(string \<times> pyval) list"

text \<open>
  An exception is its class and the text \<^verbatim>\<open>str(e)\<close> gives for it. Every class below is
  a subclass of \<^verbatim>\<open>Exception\<close>, so the \<^verbatim>\<open>except Exception\<close> clauses of the module
  catch all of them.
\<close>

datatype exc_class = Exception | ValueError | TypeError | KeyError | AttributeError

type_synonym py_exn = "exc_class \<times> string"

definition py_str_exn :: "py_exn \<Rightarrow> string" where
  "py_str_exn e = snd e"

subsection \<open>\<^verbatim>\<open>str\<close> and \<^verbatim>\<open>repr\<close> of integers and lists, \<^verbatim>\<open>str.join\<close>\<close>

definition digit_char :: "nat \<Rightarrow> char" where
  "digit_char n = ''0123456789'' ! (n mod 10)"

fun str_nat :: "nat \<Rightarrow> string" where
  "str_nat n = (if n < 10 then [digit_char n] else str_nat (n div 10) @ [digit_char (n mod 10)])"

declare str_nat.simps [simp del]

definition py_str_int :: "int \<Rightarrow> string" where
  "py_str_int i = (if i < 0 then CHR ''-'' # str_nat (nat (- i)) else str_nat (nat i))"

fun py_join :: "string \<Rightarrow> string list \<Rightarrow> string" where
  "py_join sep [] = []"
| "py_join sep [x] = x"
| "py_join sep (x # y # ys) = x @ sep @ py_join sep (y # ys)"

definition py_repr_int_list :: "int list \<Rightarrow> string" where
  "py_repr_int_list xs = ''['' @ py_join '', '' (map py_str_int xs) @ '']''"

subsection \<open>Truthiness, subscription and \<^verbatim>\<open>dict.get\<close>\<close>

fun py_truthy :: "pyval \<Rightarrow> bool" where
  "py_truthy PyNone = False"
| "py_truthy (PyBool b) = b"
| "py_truthy (PyInt i) = (i \<noteq> 0)"
| "py_truthy (PyStr s) = (s \<noteq> [])"
| "py_truthy (PyList xs) = (xs \<noteq> [])"
| "py_truthy (PyDict kvs) = (kvs \<noteq> [])"

fun py_type_name :: "pyval \<Rightarrow> string" where
  "py_type_name PyNone = ''NoneType''"
| "py_type_name (PyBool b) = ''bool''"
| "py_type_name (PyInt i) = ''int''"
| "py_type_name (PyStr s) = ''str''"
| "py_type_name (PyList xs) = ''list''"
| "py_type_name (PyDict kvs) = ''dict''"

definition quoted :: "string \<Rightarrow> string" where
  "quoted s = [CHR 0x27] @ s @ [CHR 0x27]"

text \<open>
  \<^verbatim>\<open>obj[key]\<close> with a string key: a dict looks the key up and raises \<^verbatim>\<open>KeyError\<close>
  (whose \<^verbatim>\<open>str\<close> is the \<^verbatim>\<open>repr\<close> of the key) when it is absent; every other value
  raises \<^verbatim>\<open>TypeError\<close>.
\<close>

fun py_getitem :: "pyval \<Rightarrow> string \<Rightarrow> py_exn + pyval" where
  "py_getitem (PyDict kvs) k =
     (case map_of kvs k of None \<Rightarrow> Inl (KeyError, quoted k) | Some v \<Rightarrow> Inr v)"
| "py_getitem (PyList xs) k = Inl (TypeError, ''list indices must be integers or slices, not str'')"
| "py_getitem (PyStr s) k = Inl (TypeError, ''string indices must be integers, not '' @ quoted ''str'')"
| "py_getitem v k = Inl (TypeError, quoted (py_type_name v) @ '' object is not subscriptable'')"

text \<open>
  \<^verbatim>\<open>obj.get(key)\<close>: a dict returns the value or \<^verbatim>\<open>None\<close>; no other value has the
  attribute.
\<close>

fun py_get :: "pyval \<Rightarrow> string \<Rightarrow> py_exn + pyval" where
  "py_get (PyDict kvs) k = (case map_of kvs k of None \<Rightarrow> Inr PyNone | Some v \<Rightarrow> Inr v)"
| "py_get v k =
     Inl (AttributeError, quoted (py_type_name v) @ '' object has no attribute '' @ quoted ''get'')"

subsection \<open>\<^verbatim>\<open>json.dumps\<close>\<close>

definition hex_char :: "nat \<Rightarrow> char" where
  "hex_char n = ''0123456789abcdef'' ! (n mod 16)"

text \<open>
  The encoder's default is \<^verbatim>\<open>ensure_ascii=True\<close>: the quote and the backslash are
  escaped, the usual control characters have short escapes, and everything outside
  the printable ASCII range is written \<^verbatim>\<open>\u00xx\<close>.
\<close>

definition json_escape_char :: "char \<Rightarrow> string" where
  "json_escape_char c =
     (if c = CHR 0x22 then [CHR 0x5C, CHR 0x22]
      else if c = CHR 0x5C then [CHR 0x5C, CHR 0x5C]
      else if c = CHR 0x0A then [CHR 0x5C, CHR ''n'']
      else if c = CHR 0x0D then [CHR 0x5C, CHR ''r'']
      else if c = CHR 0x09 then [CHR 0x5C, CHR ''t'']
      else if c = CHR 0x0C then [CHR 0x5C, CHR ''f'']
      else if c = CHR 0x08 then [CHR 0x5C, CHR ''b'']
      else if 32 \<le> (of_char c :: nat) \<and> (of_char c :: nat) \<le> 126 then [c]
      else [CHR 0x5C, CHR ''u'', CHR ''0'', CHR ''0'',
            hex_char ((of_char c :: nat) div 16), hex_char ((of_char c :: nat) mod 16)])"

definition json_encode_str :: "string \<Rightarrow> string" where
  "json_encode_str s = [CHR 0x22] @ concat (map json_escape_char s) @ [CHR 0x22]"

text \<open>
  \<^verbatim>\<open>indent\<close> is \<^verbatim>\<open>None\<close> or a number of spaces. With an indent the item separator is
  a comma and every item starts on a line of its own; without one the separator is a
  comma and a space. The key separator is a colon and a space in both cases.
\<close>

definition newline_indent :: "nat option \<Rightarrow> nat \<Rightarrow> string" where
  "newline_indent ind lvl =
     (case ind of None \<Rightarrow> [] | Some n \<Rightarrow> CHR 0x0A # replicate (n * lvl) CHR '' '')"

definition item_separator :: "nat option \<Rightarrow> string" where
  "item_separator ind = (case ind of None \<Rightarrow> '', '' | Some n \<Rightarrow> '','')"

fun iterencode :: "nat option \<Rightarrow> nat \<Rightarrow> pyval \<Rightarrow> string"
  and iterencode_list :: "nat option \<Rightarrow> nat \<Rightarrow> pyval list \<Rightarrow> string list"
  and iterencode_dict :: "nat option \<Rightarrow> nat \<Rightarrow> (string \<times> pyval) list \<Rightarrow> string list"
where
  "iterencode ind lvl PyNone = ''null''"
| "iterencode ind lvl (PyBool b) = (if b then ''true'' else ''false'')"
| "iterencode ind lvl (PyInt i) = py_str_int i"
| "iterencode ind lvl (PyStr s) = json_encode_str s"
| "iterencode ind lvl (PyList xs) =
     (if xs = [] then ''[]''
      else ''['' @ newline_indent ind (lvl + 1)
           @ py_join (item_separator ind @ newline_indent ind (lvl + 1))
               (iterencode_list ind (lvl + 1) xs)
           @ newline_indent ind lvl @ '']'')"
| "iterencode ind lvl (PyDict kvs) =
     (if kvs = [] then ''{}''
      else ''{'' @ newline_indent ind (lvl + 1)
           @ py_join (item_separator ind @ newline_indent ind (lvl + 1))
               (iterencode_dict ind (lvl + 1) kvs)
           @ newline_indent ind lvl @ ''}'')"
| "iterencode_list ind lvl [] = []"
| "iterencode_list ind lvl (x # xs) = iterencode ind lvl x # iterencode_list ind lvl xs"
| "iterencode_dict ind lvl [] = []"
| "iterencode_dict ind lvl ((k, v) # kvs) =
     (json_encode_str k @ '': '' @ iterencode ind lvl v) # iterencode_dict ind lvl kvs"

definition json_dumps :: "nat option \<Rightarrow> pyval \<Rightarrow> string" where
  "json_dumps ind obj = iterencode ind 0 obj"

subsection \<open>Naive \<^verbatim>\<open>datetime\<close> values at second resolution\<close>

record datetime =
  dt_year :: nat
  dt_month :: nat
  dt_day :: nat
  dt_hour :: nat
  dt_minute :: nat
  dt_second :: nat

definition zfill :: "nat \<Rightarrow> string \<Rightarrow> string" where
  "zfill w s = replicate (w - length s) CHR ''0'' @ s"

text \<open>\<^verbatim>\<open>datetime.isoformat()\<close> of a naive value whose microsecond is zero.\<close>

definition isoformat :: "datetime \<Rightarrow> string" where
  "isoformat d =
     zfill 4 (str_nat (dt_year d)) @ ''-'' @ zfill 2 (str_nat (dt_month d)) @ ''-''
     @ zfill 2 (str_nat (dt_day d)) @ ''T'' @ zfill 2 (str_nat (dt_hour d)) @ '':''
     @ zfill 2 (str_nat (dt_minute d)) @ '':'' @ zfill 2 (str_nat (dt_second d))"

section \<open>The date-range validator\<close>

definition is_digit :: "char \<Rightarrow> bool" where
  "is_digit c = (48 \<le> (of_char c :: nat) \<and> (of_char c :: nat) \<le> 57)"

definition nat_of_digits :: "string \<Rightarrow> nat" where
  "nat_of_digits s = foldl (\<lambda>a c. 10 * a + ((of_char c :: nat) - 48)) 0 s"

definition is_leap :: "nat \<Rightarrow> bool" where
  "is_leap y = (y mod 4 = 0 \<and> (y mod 100 \<noteq> 0 \<or> y mod 400 = 0))"

definition days_in_month :: "nat \<Rightarrow> nat \<Rightarrow> nat" where
  "days_in_month y m =
     (if m = 2 then (if is_leap y then 29 else 28)
      else if m = 4 \<or> m = 6 \<or> m = 9 \<or> m = 11 then 30 else 31)"

text \<open>
  Modelled from the spec: the parser behind \<^verbatim>\<open>utils.validators.validate_date_range\<close>,
  which is not among the sources. The spec says it "expects the exact format
  YYYY-MM-DDTHH:MM:SS" and "fails with a validation error if the string does not parse".
  The string has to be nineteen characters, digits in the six fields and the
  separators in between, and has to name a date and a time of day that exist.
\<close>

definition parse_datetime :: "string \<Rightarrow> datetime option" where
  "parse_datetime s =
     (if length s = 19
         \<and> s ! 4 = CHR ''-'' \<and> s ! 7 = CHR ''-'' \<and> s ! 10 = CHR ''T''
         \<and> s ! 13 = CHR '':'' \<and> s ! 16 = CHR '':''
         \<and> list_all is_digit (take 4 s) \<and> list_all is_digit (take 2 (drop 5 s))
         \<and> list_all is_digit (take 2 (drop 8 s)) \<and> list_all is_digit (take 2 (drop 11 s))
         \<and> list_all is_digit (take 2 (drop 14 s)) \<and> list_all is_digit (take 2 (drop 17 s))
      then
        (let y = nat_of_digits (take 4 s); mo = nat_of_digits (take 2 (drop 5 s));
             d = nat_of_digits (take 2 (drop 8 s)); h = nat_of_digits (take 2 (drop 11 s));
             mi = nat_of_digits (take 2 (drop 14 s)); se = nat_of_digits (take 2 (drop 17 s))
         in if 1 \<le> y \<and> 1 \<le> mo \<and> mo \<le> 12 \<and> 1 \<le> d \<and> d \<le> days_in_month y mo
               \<and> h < 24 \<and> mi < 60 \<and> se < 60
            then Some \<lparr>dt_year = y, dt_month = mo, dt_day = d,
                       dt_hour = h, dt_minute = mi, dt_second = se\<rparr>
            else None)
      else None)"

text \<open>
  Modelled from the spec: the validation failure of the validator. The spec calls it
  a validation error and gives no text for it; the text below stands for whatever the
  validator says about the string it was given.
\<close>

definition invalid_date :: "string \<Rightarrow> py_exn" where
  "invalid_date s = (ValueError, ''Invalid date format: '' @ s)"

definition parse_bound :: "string option \<Rightarrow> py_exn + datetime option" where
  "parse_bound b =
     (case b of
        None \<Rightarrow> Inr None
      | Some s \<Rightarrow> (case parse_datetime s of None \<Rightarrow> Inl (invalid_date s) | Some d \<Rightarrow> Inr (Some d)))"

text \<open>
  Modelled from the spec: \<^verbatim>\<open>utils.validators.validate_date_range\<close>, imported by the
  module and not among the sources. "Given an optional after string and an optional
  before string in YYYY-MM-DDTHH:MM:SS format, returns parsed lower/upper bounds or
  signals a validation failure."
\<close>

definition validate_date_range ::
  "string option \<Rightarrow> string option \<Rightarrow> py_exn + (datetime option \<times> datetime option)" where
  "validate_date_range after_str before_str =
     (case parse_bound after_str of
        Inl e \<Rightarrow> Inl e
      | Inr start_date \<Rightarrow>
          (case parse_bound before_str of
             Inl e \<Rightarrow> Inl e
           | Inr end_date \<Rightarrow> Inr (start_date, end_date)))"

section \<open>The platform client\<close>

text \<open>
  The client is injected. Each operation awaits at most one of its methods, so the
  client is a function from the call (method and arguments) to what the call does:
  raise (\<open>Inl\<close>) or return a value (\<open>Inr\<close>). Keyword arguments are listed in the order
  the module writes them.
\<close>

datatype client_call =
    Get_assignments "(string \<times> pyval) list"
  | Get_assignment int
  | Delete_assignment pyval
  | Add_entity_note "(string \<times> pyval) list"
  | Mark_detection_fixed "int list" bool

type_synonym client = "client_call \<Rightarrow> py_exn + pyval"

text \<open>
  What an operation does: the string it returns or the exception it raises, and the
  client calls it issued, in order.
\<close>

type_synonym outcome = "(py_exn + string) \<times> client_call list"

type_synonym validator =
  "string option \<Rightarrow> string option \<Rightarrow> py_exn + (datetime option \<times> datetime option)"

text \<open>\<^verbatim>\<open>except Exception as e: raise Exception(f"<pre>{str(e)}")\<close>\<close>

definition reraise :: "string \<Rightarrow> py_exn \<Rightarrow> py_exn" where
  "reraise pre e = (Exception, pre @ py_str_exn e)"

section \<open>The operations of \<^verbatim>\<open>InvestigationMCPTools\<close>\<close>

text \<open>
  \<^verbatim>\<open>list_assignments\<close> takes the validator it imports as its first argument;
  \<open>validate_date_range\<close> above is the one the spec describes.
\<close>

definition list_assignments :: "validator \<Rightarrow> client \<Rightarrow> bool \<Rightarrow> string option \<Rightarrow> outcome" where
  "list_assignments vdr cl resolved created_after =
     (case vdr created_after None of
        Inl e \<Rightarrow> (Inl (reraise ''Failed to list assignments: '' e), [])
      | Inr (start_date, end_date) \<Rightarrow>
          (let search_params =
                 [(''resolved'', PyBool resolved)]
                 @ (case start_date of
                      None \<Rightarrow> []
                    | Some d \<Rightarrow> [(''created_after'', PyStr (isoformat d))]);
               c = Get_assignments search_params
           in case cl c of
                Inl e \<Rightarrow> (Inl (reraise ''Failed to list assignments: '' e), [c])
              | Inr assignments \<Rightarrow>
                  (if assignments = PyNone then (Inr ''No assignments found.'', [c])
                   else (Inr (json_dumps (Some 2) assignments), [c]))))"

definition list_assignments_for_user :: "client \<Rightarrow> int \<Rightarrow> bool \<Rightarrow> outcome" where
  "list_assignments_for_user cl user_id resolved =
     (let c = Get_assignments [(''assignee'', PyInt user_id), (''resolved'', PyBool resolved)]
      in case cl c of
           Inl e \<Rightarrow> (Inl (reraise ''Failed to list assignments: '' e), [c])
         | Inr assignments \<Rightarrow>
             (if assignments = PyNone then (Inr ''No assignments found.'', [c])
              else (Inr (json_dumps (Some 2) assignments), [c])))"

definition get_assignment_detail_by_id :: "client \<Rightarrow> int \<Rightarrow> outcome" where
  "get_assignment_detail_by_id cl assignment_id =
     (let c = Get_assignment assignment_id
      in case cl c of
           Inl e \<Rightarrow>
             (Inl (reraise (''Failed to list assignment : '' @ py_str_int assignment_id @ '': '') e), [c])
         | Inr assignment_details \<Rightarrow> (Inr (json_dumps (Some 2) assignment_details), [c]))"

definition entity_type_error :: py_exn where
  "entity_type_error =
     (ValueError,
      ''entity_type must be either '' @ quoted ''host'' @ '' or '' @ quoted ''account'' @ ''.'')"

definition get_assignment_for_entity :: "client \<Rightarrow> int list \<Rightarrow> string \<Rightarrow> outcome" where
  "get_assignment_for_entity cl entity_ids entity_type =
     (let pre = ''Failed to fetch assignment for '' @ entity_type @ '': ''
                   @ py_repr_int_list entity_ids @ '': ''
      in if entity_type \<notin> set [''host'', ''account'']
         then (Inl (reraise pre entity_type_error), [])
         else
           (let search_params =
                  (if entity_type = ''host''
                   then [(''hosts'', PyStr (py_join '','' (map py_str_int entity_ids)))]
                   else [(''accounts'', PyStr (py_join '','' (map py_str_int entity_ids)))]);
                c = Get_assignments search_params
            in case cl c of
                 Inl e \<Rightarrow> (Inl (reraise pre e), [c])
               | Inr assignments \<Rightarrow>
                   (case py_getitem assignments ''results'' of
                      Inl e \<Rightarrow> (Inl (reraise pre e), [c])
                    | Inr results \<Rightarrow>
                        (if \<not> py_truthy results
                         then (Inr (''No assignments found for '' @ entity_type @ '': ''
                                    @ py_repr_int_list entity_ids @ ''.''), [c])
                         else (Inr (json_dumps (Some 2) results), [c])))))"

definition create_assignment :: "client \<Rightarrow> int \<Rightarrow> int \<Rightarrow> string \<Rightarrow> outcome" where
  "create_assignment cl assign_to_user_id assign_entity_id assign_entity_type =
     (let assignment_data =
            [(''assign_to_user_id'', PyInt assign_to_user_id)]
            @ (if assign_entity_type = ''account''
               then [(''assign_account_id'', PyInt assign_entity_id)]
               else [(''assign_host_id'', PyInt assign_entity_id)]);
          c = Delete_assignment (PyDict assignment_data)
      in case cl c of
           Inl e \<Rightarrow> (Inl (reraise ''Failed to create assignment: '' e), [c])
         | Inr assignment \<Rightarrow>
             (case py_get assignment ''assignment'' of
                Inl e \<Rightarrow> (Inl (reraise ''Failed to create assignment: '' e), [c])
              | Inr a \<Rightarrow>
                  (case py_get a ''id'' of
                     Inl e \<Rightarrow> (Inl (reraise ''Failed to create assignment: '' e), [c])
                   | Inr assignment_id \<Rightarrow> (Inr (json_dumps None assignment), [c]))))"

definition create_entity_note :: "client \<Rightarrow> int \<Rightarrow> string \<Rightarrow> string \<Rightarrow> outcome" where
  "create_entity_note cl entity_id entity_type note =
     (let pre = ''Failed to add note to entity '' @ py_str_int entity_id @ '': ''
      in if entity_type \<notin> set [''host'', ''account'']
         then (Inl (reraise pre entity_type_error), [])
         else
           (let params = [(''entity_id'', PyInt entity_id), (''type'', PyStr entity_type),
                          (''note'', PyStr note)];
                c = Add_entity_note params
            in case cl c of
                 Inl e \<Rightarrow> (Inl (reraise pre e), [c])
               | Inr create_note \<Rightarrow> (Inr (json_dumps (Some 2) create_note), [c])))"

definition mark_detection_fixed :: "client \<Rightarrow> int list \<Rightarrow> bool \<Rightarrow> outcome" where
  "mark_detection_fixed cl detection_ids mark_fixed =
     (if detection_ids = [] then (Inr ''No detection IDs provided.'', [])
      else
        (let c = Mark_detection_fixed detection_ids mark_fixed
         in case cl c of
              Inl e \<Rightarrow> (Inl (reraise ''Failed to mark detections: '' e), [c])
            | Inr response \<Rightarrow>
                (Inr (''Marked '' @ str_nat (length detection_ids) @ '' detections as ''
                      @ (if mark_fixed then ''fixed'' else ''not fixed'') @ ''.''), [c])))"


section \<open>Vocabulary of the properties\<close>

text \<open>Two clients for concrete runs: one returns the same value to every call, one always raises.\<close>

definition client_returning :: "pyval \<Rightarrow> client" where
  "client_returning v = (\<lambda>c. Inr v)"


text \<open>The \<^verbatim>\<open>get_assignments\<close> calls the three listing operations issue.\<close>

definition list_query :: "bool \<Rightarrow> datetime option \<Rightarrow> client_call" where
  "list_query resolved start_date =
     Get_assignments
       ([(''resolved'', PyBool resolved)]
        @ (case start_date of None \<Rightarrow> [] | Some d \<Rightarrow> [(''created_after'', PyStr (isoformat d))]))"

definition user_query :: "int \<Rightarrow> bool \<Rightarrow> client_call" where
  "user_query user_id resolved =
     Get_assignments [(''assignee'', PyInt user_id), (''resolved'', PyBool resolved)]"

definition entity_query :: "string \<Rightarrow> int list \<Rightarrow> client_call" where
  "entity_query entity_type entity_ids =
     Get_assignments
       [(if entity_type = ''host'' then ''hosts'' else ''accounts'',
         PyStr (py_join '','' (map py_str_int entity_ids)))]"



text \<open>The sentinel of \<^verbatim>\<open>get_assignment_for_entity\<close>.\<close>

definition no_assignments_for :: "string \<Rightarrow> int list \<Rightarrow> string" where
  "no_assignments_for entity_type entity_ids =
     ''No assignments found for '' @ entity_type @ '': '' @ py_repr_int_list entity_ids @ ''.''"

text \<open>An empty collection: a string, list or dict of length zero.\<close>

fun py_is_empty :: "pyval \<Rightarrow> bool" where
  "py_is_empty (PyStr s) = (s = [])"
| "py_is_empty (PyList xs) = (xs = [])"
| "py_is_empty (PyDict kvs) = (kvs = [])"
| "py_is_empty v = False"

section \<open>How each operation unfolds\<close>

lemma reraise_message: "reraise pre (k, m) = (Exception, pre @ m)"
  by (simp add: reraise_def py_str_exn_def)

lemma list_assignments_calls:
  "vdr created_after None = Inr (sd, ed) \<Longrightarrow>
   snd (list_assignments vdr cl resolved created_after) = [list_query resolved sd]"
  by (simp add: list_assignments_def list_query_def Let_def split: sum.splits)

lemma list_assignments_result:
  "vdr created_after None = Inr (sd, ed) \<Longrightarrow>
   fst (list_assignments vdr cl resolved created_after) =
     (case cl (list_query resolved sd) of
        Inl e \<Rightarrow> Inl (reraise ''Failed to list assignments: '' e)
      | Inr v \<Rightarrow> Inr (if v = PyNone then ''No assignments found.'' else json_dumps (Some 2) v))"
  by (simp add: list_assignments_def list_query_def Let_def split: sum.splits)

lemma list_assignments_invalid:
  "vdr created_after None = Inl e \<Longrightarrow>
   list_assignments vdr cl resolved created_after
     = (Inl (reraise ''Failed to list assignments: '' e), [])"
  by (simp add: list_assignments_def)

lemma list_assignments_for_user_result:
  "list_assignments_for_user cl user_id resolved =
     (case cl (user_query user_id resolved) of
        Inl e \<Rightarrow> Inl (reraise ''Failed to list assignments: '' e)
      | Inr v \<Rightarrow> Inr (if v = PyNone then ''No assignments found.'' else json_dumps (Some 2) v),
      [user_query user_id resolved])"
  by (simp add: list_assignments_for_user_def user_query_def Let_def split: sum.splits)

lemma get_assignment_for_entity_invalid:
  "entity_type \<noteq> ''host'' \<Longrightarrow> entity_type \<noteq> ''account'' \<Longrightarrow>
   get_assignment_for_entity cl entity_ids entity_type =
     (Inl (reraise (''Failed to fetch assignment for '' @ entity_type @ '': ''
                    @ py_repr_int_list entity_ids @ '': '') entity_type_error), [])"
  by (simp add: get_assignment_for_entity_def Let_def)

lemma get_assignment_for_entity_valid:
  "entity_type = ''host'' \<or> entity_type = ''account'' \<Longrightarrow>
   get_assignment_for_entity cl entity_ids entity_type =
     (case cl (entity_query entity_type entity_ids) of
        Inl e \<Rightarrow> Inl (reraise (''Failed to fetch assignment for '' @ entity_type @ '': ''
                    @ py_repr_int_list entity_ids @ '': '') e)
      | Inr assignments \<Rightarrow>
          (case py_getitem assignments ''results'' of
             Inl e \<Rightarrow> Inl (reraise (''Failed to fetch assignment for '' @ entity_type @ '': ''
                    @ py_repr_int_list entity_ids @ '': '') e)
           | Inr results \<Rightarrow>
               Inr (if py_truthy results then json_dumps (Some 2) results
                    else no_assignments_for entity_type entity_ids)),
      [entity_query entity_type entity_ids])"
  by (auto simp add: get_assignment_for_entity_def entity_query_def no_assignments_for_def Let_def
        split: sum.splits)

lemma create_entity_note_invalid:
  "entity_type \<noteq> ''host'' \<Longrightarrow> entity_type \<noteq> ''account'' \<Longrightarrow>
   create_entity_note cl entity_id entity_type note =
     (Inl (reraise (''Failed to add note to entity '' @ py_str_int entity_id @ '': '')
             entity_type_error), [])"
  by (simp add: create_entity_note_def Let_def)

lemma json_dumps_empty_list: "json_dumps ind (PyList []) = ''[]''"
  by (simp add: json_dumps_def)

lemma json_dumps_empty_dict: "json_dumps ind (PyDict []) = ''{}''"
  by (simp add: json_dumps_def)

lemma validate_date_range_absent: "validate_date_range None None = Inr (None, None)"
  by (simp add: validate_date_range_def parse_bound_def)

lemma get_assignment_detail_by_id_result:
  "get_assignment_detail_by_id cl assignment_id =
     (case cl (Get_assignment assignment_id) of
        Inl e \<Rightarrow> Inl (reraise (''Failed to list assignment : '' @ py_str_int assignment_id @ '': '') e)
      | Inr v \<Rightarrow> Inr (json_dumps (Some 2) v),
      [Get_assignment assignment_id])"
  by (simp add: get_assignment_detail_by_id_def Let_def split: sum.splits)

subsection \<open>The validator on the two strings of the example\<close>

lemma parse_not_a_date: "parse_datetime ''not-a-date'' = None"
  by (simp add: parse_datetime_def)

lemma parse_new_year:
  "parse_datetime ''2024-01-01T00:00:00''
     = Some \<lparr>dt_year = 2024, dt_month = 1, dt_day = 1, dt_hour = 0, dt_minute = 0, dt_second = 0\<rparr>"
  by (simp add: parse_datetime_def is_digit_def nat_of_digits_def days_in_month_def Let_def)

subsection \<open>Decimal text of small numbers\<close>

lemma str_nat_small: "n < 10 \<Longrightarrow> str_nat n = [digit_char n]"
  by (simp add: str_nat.simps)

lemma str_nat_10: "str_nat 10 = ''10''"
  by code_simp

lemma str_nat_20: "str_nat 20 = ''20''"
  by code_simp

lemma str_nat_3: "str_nat (Suc (Suc (Suc 0))) = ''3''"
  by (simp add: str_nat.simps digit_char_def)



subsection \<open>The error every operation raises\<close>












subsection \<open>JSON text never reads as the sentinel\<close>

lemma digit_char_is_digit: "is_digit (digit_char n)"
proof -
  have "n mod 10 = 0 \<or> n mod 10 = 1 \<or> n mod 10 = 2 \<or> n mod 10 = 3 \<or> n mod 10 = 4
        \<or> n mod 10 = 5 \<or> n mod 10 = 6 \<or> n mod 10 = 7 \<or> n mod 10 = 8 \<or> n mod 10 = 9"
    by presburger
  then show ?thesis
    unfolding digit_char_def is_digit_def
    by (elim disjE) simp_all
qed

lemma digit_char_not_N: "digit_char n \<noteq> CHR ''N''"
proof
  assume "digit_char n = CHR ''N''"
  with digit_char_is_digit [of n] show False by (simp add: is_digit_def)
qed

lemma str_nat_hd: "\<exists>d rest. str_nat n = digit_char d # rest"
proof (induction n rule: str_nat.induct)
  case (1 n)
  show ?case
  proof (cases "n < 10")
    case True
    then have "str_nat n = digit_char n # []" by (simp add: str_nat.simps)
    then show ?thesis by blast
  next
    case False
    with 1 obtain d rest where "str_nat (n div 10) = digit_char d # rest" by blast
    with False have "str_nat n = digit_char d # (rest @ [digit_char (n mod 10)])"
      by (subst str_nat.simps) simp
    then show ?thesis by blast
  qed
qed

lemma str_nat_not_N: "str_nat n \<noteq> CHR ''N'' # s"
proof
  assume eq: "str_nat n = CHR ''N'' # s"
  obtain d rest where "str_nat n = digit_char d # rest" using str_nat_hd by blast
  with eq have "digit_char d = CHR ''N''" by simp
  with digit_char_not_N show False by blast
qed

lemma iterencode_not_N: "iterencode ind lvl v \<noteq> CHR ''N'' # s"
  by (cases v) (auto simp add: py_str_int_def str_nat_not_N json_encode_str_def)

lemma json_dumps_not_sentinel: "json_dumps ind v \<noteq> no_assignments_for t ids"
  by (simp add: json_dumps_def no_assignments_for_def iterencode_not_N)

lemma py_getitem_Inr:
  "py_getitem a k = Inr r \<Longrightarrow> \<exists>kvs. a = PyDict kvs \<and> map_of kvs k = Some r"
  by (cases a) (auto split: option.splits)

lemma sentinel_only_if:
  assumes "fst (get_assignment_for_entity cl ids t) = Inr (no_assignments_for t ids)"
  shows "\<exists>kvs v. cl (entity_query t ids) = Inr (PyDict kvs)
           \<and> map_of kvs ''results'' = Some v \<and> \<not> py_truthy v"
proof (cases "t = ''host'' \<or> t = ''account''")
  case False
  then have "t \<noteq> ''host''" and "t \<noteq> ''account''" by auto
  from get_assignment_for_entity_invalid [OF this] assms show ?thesis by simp
next
  case True
  note unfold = get_assignment_for_entity_valid [OF True, of cl ids]
  show ?thesis
  proof (cases "cl (entity_query t ids)")
    case (Inl e)
    with unfold assms show ?thesis by simp
  next
    case (Inr a)
    show ?thesis
    proof (cases "py_getitem a ''results''")
      case (Inl e)
      with unfold assms \<open>cl (entity_query t ids) = Inr a\<close> show ?thesis by simp
    next
      case r: (Inr r)
      from py_getitem_Inr [OF r] obtain kvs where
        a: "a = PyDict kvs" and look: "map_of kvs ''results'' = Some r" by blast
      have "\<not> py_truthy r"
      proof
        assume "py_truthy r"
        with unfold assms Inr r have "json_dumps (Some 2) r = no_assignments_for t ids" by simp
        then show False by (simp add: json_dumps_not_sentinel)
      qed
      with Inr a look show ?thesis by blast
    qed
  qed
qed

subsection \<open>Formatting a parsed timestamp gives the string back\<close>

lemma char_from_code: "(of_char c :: nat) = of_char d \<Longrightarrow> c = d"
  by simp

lemma is_digit_cases:
  assumes "is_digit c"
  shows "c \<in> set ''0123456789''"
proof -
  from assms have "48 \<le> (of_char c :: nat)" and "(of_char c :: nat) \<le> 57"
    by (simp_all add: is_digit_def)
  then have "(of_char c :: nat) = 48 \<or> (of_char c :: nat) = 49 \<or> (of_char c :: nat) = 50
      \<or> (of_char c :: nat) = 51 \<or> (of_char c :: nat) = 52 \<or> (of_char c :: nat) = 53
      \<or> (of_char c :: nat) = 54 \<or> (of_char c :: nat) = 55 \<or> (of_char c :: nat) = 56
      \<or> (of_char c :: nat) = 57"
    by presburger
  moreover have "c = CHR ''0''" if "(of_char c :: nat) = 48"
    using that by (intro char_from_code) simp
  moreover have "c = CHR ''1''" if "(of_char c :: nat) = 49"
    using that by (intro char_from_code) simp
  moreover have "c = CHR ''2''" if "(of_char c :: nat) = 50"
    using that by (intro char_from_code) simp
  moreover have "c = CHR ''3''" if "(of_char c :: nat) = 51"
    using that by (intro char_from_code) simp
  moreover have "c = CHR ''4''" if "(of_char c :: nat) = 52"
    using that by (intro char_from_code) simp
  moreover have "c = CHR ''5''" if "(of_char c :: nat) = 53"
    using that by (intro char_from_code) simp
  moreover have "c = CHR ''6''" if "(of_char c :: nat) = 54"
    using that by (intro char_from_code) simp
  moreover have "c = CHR ''7''" if "(of_char c :: nat) = 55"
    using that by (intro char_from_code) simp
  moreover have "c = CHR ''8''" if "(of_char c :: nat) = 56"
    using that by (intro char_from_code) simp
  moreover have "c = CHR ''9''" if "(of_char c :: nat) = 57"
    using that by (intro char_from_code) simp
  ultimately show ?thesis by auto
qed

lemma digit_char_of_digit:
  assumes "is_digit c"
  shows "digit_char ((of_char c :: nat) - 48) = c"
  using is_digit_cases [OF assms] by (auto simp add: digit_char_def)

lemma zfill_snoc: "zfill (Suc k) (xs @ [c]) = zfill k xs @ [c]"
  by (simp add: zfill_def)

lemma nat_of_digits_snoc:
  "nat_of_digits (ds @ [c]) = 10 * nat_of_digits ds + ((of_char c :: nat) - 48)"
  by (simp add: nat_of_digits_def)

lemma str_nat_step:
  assumes "0 < m" and "d < 10"
  shows "str_nat (10 * m + d) = str_nat m @ [digit_char d]"
proof -
  from assms have "\<not> 10 * m + d < 10" by simp
  moreover from assms have "(10 * m + d) div 10 = m" and "(10 * m + d) mod 10 = d" by simp_all
  ultimately show ?thesis by (subst str_nat.simps) simp
qed

lemma zfill_str_nat_digits:
  "ds \<noteq> [] \<Longrightarrow> list_all is_digit ds \<Longrightarrow>
   zfill (length ds) (str_nat (nat_of_digits ds)) = ds"
proof (induction ds rule: rev_induct)
  case Nil
  then show ?case by simp
next
  case (snoc c ds)
  then have c: "is_digit c" and ds: "list_all is_digit ds" by simp_all
  let ?d = "(of_char c :: nat) - 48"
  from c have d: "?d < 10" by (auto simp add: is_digit_def)
  show ?case
  proof (cases "ds = []")
    case True
    with d c show ?thesis
      by (simp add: nat_of_digits_def str_nat.simps zfill_def digit_char_of_digit)
  next
    case False
    with snoc.IH ds have IH: "zfill (length ds) (str_nat (nat_of_digits ds)) = ds" by simp
    show ?thesis
    proof (cases "nat_of_digits ds = 0")
      case True
      with IH have "zfill (length ds) (str_nat 0) = ds" by simp
      then have zeros: "ds = replicate (length ds) CHR ''0''"
        using False
        by (simp add: str_nat.simps zfill_def digit_char_def replicate_append_same
              flip: replicate_Suc)
      from True d c have "str_nat (nat_of_digits (ds @ [c])) = [c]"
        by (simp add: nat_of_digits_snoc str_nat.simps digit_char_of_digit)
      then have "zfill (length (ds @ [c])) (str_nat (nat_of_digits (ds @ [c])))
                   = replicate (length ds) CHR ''0'' @ [c]"
        by (simp add: zfill_def)
      with zeros show ?thesis by simp
    next
      case nz: False
      then have "str_nat (nat_of_digits (ds @ [c])) = str_nat (nat_of_digits ds) @ [c]"
        using d c by (simp add: nat_of_digits_snoc str_nat_step digit_char_of_digit)
      then show ?thesis using IH by (simp add: zfill_snoc)
    qed
  qed
qed


lemma timestamp_fields:
  assumes len: "length s = 19"
  shows "s = take 4 s @ s ! 4 # take 2 (drop 5 s) @ s ! 7 # take 2 (drop 8 s) @ s ! 10
             # take 2 (drop 11 s) @ s ! 13 # take 2 (drop 14 s) @ s ! 16 # take 2 (drop 17 s)"
proof -
  have sep: "drop i s = s ! i # drop (Suc i) s" if "i < 19" for i
    using that len by (simp add: Cons_nth_drop_Suc)
  have field: "drop i s = take 2 (drop i s) @ drop (i + 2) s" for i
    using append_take_drop_id [of 2 "drop i s"] by (simp add: add.commute)
  have "s = take 4 s @ drop 4 s" by simp
  also have "drop 4 s = s ! 4 # drop 5 s" using sep [of 4] by simp
  also have "drop 5 s = take 2 (drop 5 s) @ drop 7 s" using field [of 5] by simp
  also have "drop 7 s = s ! 7 # drop 8 s" using sep [of 7] by simp
  also have "drop 8 s = take 2 (drop 8 s) @ drop 10 s" using field [of 8] by simp
  also have "drop 10 s = s ! 10 # drop 11 s" using sep [of 10] by simp
  also have "drop 11 s = take 2 (drop 11 s) @ drop 13 s" using field [of 11] by simp
  also have "drop 13 s = s ! 13 # drop 14 s" using sep [of 13] by simp
  also have "drop 14 s = take 2 (drop 14 s) @ drop 16 s" using field [of 14] by simp
  also have "drop 16 s = s ! 16 # drop 17 s" using sep [of 16] by simp
  also have "drop 17 s = take 2 (drop 17 s)" using len by simp
  finally show ?thesis .
qed

lemma zfill_field:
  assumes "list_all is_digit ds" and "length ds = w" and "0 < w"
  shows "zfill w (str_nat (nat_of_digits ds)) = ds"
  using zfill_str_nat_digits [of ds] assms by auto

lemma isoformat_parse_datetime:
  assumes "parse_datetime s = Some d"
  shows "isoformat d = s"
proof -
  from assms have len: "length s = 19"
    and seps: "s ! 4 = CHR ''-''" "s ! 7 = CHR ''-''" "s ! 10 = CHR ''T''"
              "s ! 13 = CHR '':''" "s ! 16 = CHR '':''"
    and digs: "list_all is_digit (take 4 s)" "list_all is_digit (take 2 (drop 5 s))"
              "list_all is_digit (take 2 (drop 8 s))" "list_all is_digit (take 2 (drop 11 s))"
              "list_all is_digit (take 2 (drop 14 s))" "list_all is_digit (take 2 (drop 17 s))"
    by (simp_all add: parse_datetime_def split: if_splits)
  from assms len seps digs have d:
    "dt_year d = nat_of_digits (take 4 s)" "dt_month d = nat_of_digits (take 2 (drop 5 s))"
    "dt_day d = nat_of_digits (take 2 (drop 8 s))" "dt_hour d = nat_of_digits (take 2 (drop 11 s))"
    "dt_minute d = nat_of_digits (take 2 (drop 14 s))"
    "dt_second d = nat_of_digits (take 2 (drop 17 s))"
    by (auto simp add: parse_datetime_def Let_def split: if_splits)
  have f: "zfill 4 (str_nat (dt_year d)) = take 4 s"
    "zfill 2 (str_nat (dt_month d)) = take 2 (drop 5 s)"
    "zfill 2 (str_nat (dt_day d)) = take 2 (drop 8 s)"
    "zfill 2 (str_nat (dt_hour d)) = take 2 (drop 11 s)"
    "zfill 2 (str_nat (dt_minute d)) = take 2 (drop 14 s)"
    "zfill 2 (str_nat (dt_second d)) = take 2 (drop 17 s)"
    unfolding d using digs len by (simp_all add: zfill_field)
  have "isoformat d = take 4 s @ s ! 4 # take 2 (drop 5 s) @ s ! 7 # take 2 (drop 8 s) @ s ! 10
             # take 2 (drop 11 s) @ s ! 13 # take 2 (drop 14 s) @ s ! 16 # take 2 (drop 17 s)"
    unfolding isoformat_def f seps by simp
  also have "\<dots> = s" using timestamp_fields [OF len] by simp
  finally show ?thesis .
qed

section \<open>Properties of the operations\<close>

text \<open>
  C1. The claim: \<^verbatim>\<open>create_assignment\<close> builds the payload (assignee id, and
  \<^verbatim>\<open>assign_account_id\<close> or \<^verbatim>\<open>assign_host_id\<close> by entity type) and issues exactly one
  create call to the client with it. What the source does, for every client and every
  pair of ids: the payload is built as claimed, and the one client call made with it is
  \<^verbatim>\<open>delete_assignment\<close>. No run of the operation issues a create call.
\<close>

theorem create_assignment_calls_delete:
  "snd (create_assignment cl assign_to_user_id assign_entity_id ''account'')
     = [Delete_assignment (PyDict [(''assign_to_user_id'', PyInt assign_to_user_id),
                                   (''assign_account_id'', PyInt assign_entity_id)])]
   \<and> snd (create_assignment cl assign_to_user_id assign_entity_id ''host'')
     = [Delete_assignment (PyDict [(''assign_to_user_id'', PyInt assign_to_user_id),
                                   (''assign_host_id'', PyInt assign_entity_id)])]"
  by (simp add: create_assignment_def Let_def split: sum.splits)

text \<open>
  C3. For every \<^verbatim>\<open>entity_type\<close> other than "host" and "account",
  \<^verbatim>\<open>get_assignment_for_entity\<close> and \<^verbatim>\<open>create_entity_note\<close> fail with the validation
  message (the \<^verbatim>\<open>ValueError\<close> is caught at the boundary and raised again as
  \<^verbatim>\<open>Exception\<close> with the operation's text in front), and the list of client calls of
  the run is empty.
\<close>

theorem invalid_entity_type_rejected:
  assumes "entity_type \<noteq> ''host''" and "entity_type \<noteq> ''account''"
  shows "get_assignment_for_entity cl entity_ids entity_type
           = (Inl (Exception, ''Failed to fetch assignment for '' @ entity_type @ '': ''
                     @ py_repr_int_list entity_ids
                     @ '': entity_type must be either 'host' or 'account'.''), [])
         \<and> create_entity_note cl entity_id entity_type note
           = (Inl (Exception, ''Failed to add note to entity '' @ py_str_int entity_id
                     @ '': entity_type must be either 'host' or 'account'.''), [])"
  using assms
  by (simp add: get_assignment_for_entity_invalid create_entity_note_invalid
        entity_type_error_def quoted_def reraise_message)

theorem invalid_entity_type_rejected_witness:
  "''user'' \<noteq> ''host'' \<and> ''user'' \<noteq> ''account''
   \<and> get_assignment_for_entity (client_returning PyNone) [10, 20] ''user''
       = (Inl (Exception,
          ''Failed to fetch assignment for user: [10, 20]: entity_type must be either 'host' or 'account'.''),
          [])
   \<and> create_entity_note (client_returning PyNone) 7 ''user'' ''seen''
       = (Inl (Exception,
          ''Failed to add note to entity 7: entity_type must be either 'host' or 'account'.''), [])"
  using invalid_entity_type_rejected [of "''user''" "client_returning PyNone" "[10, 20]" 7 "''seen''"]
  by (simp add: py_repr_int_list_def py_str_int_def str_nat_10 str_nat_20 str_nat_small digit_char_def)

text \<open>
  C6. For every list of entity ids (the empty one included),
  \<^verbatim>\<open>get_assignment_for_entity\<close> with type "host" makes the one client call
  \<^verbatim>\<open>get_assignments(hosts=...)\<close> whose value is the ids in decimal joined by commas, and
  with type "account" the call \<^verbatim>\<open>get_assignments(accounts=...)\<close>; for the ids 10 and 20
  the value is "10,20".
\<close>

theorem entity_filter_comma_joined:
  "snd (get_assignment_for_entity cl entity_ids ''host'')
     = [Get_assignments [(''hosts'', PyStr (py_join '','' (map py_str_int entity_ids)))]]
   \<and> snd (get_assignment_for_entity cl entity_ids ''account'')
     = [Get_assignments [(''accounts'', PyStr (py_join '','' (map py_str_int entity_ids)))]]
   \<and> snd (get_assignment_for_entity cl [10, 20] ''host'')
     = [Get_assignments [(''hosts'', PyStr ''10,20'')]]
   \<and> snd (get_assignment_for_entity cl [10, 20] ''account'')
     = [Get_assignments [(''accounts'', PyStr ''10,20'')]]"
  by (simp add: get_assignment_for_entity_valid entity_query_def py_str_int_def str_nat_10 str_nat_20)

text \<open>
  C7. With an empty list of detection ids \<^verbatim>\<open>mark_detection_fixed\<close> returns
  "No detection IDs provided." and calls the client not at all, whatever
  \<^verbatim>\<open>mark_fixed\<close> is.
\<close>

theorem mark_detection_fixed_empty:
  "mark_detection_fixed cl [] mark_fixed = (Inr ''No detection IDs provided.'', [])"
  by (simp add: mark_detection_fixed_def)

text \<open>
  C10. For a non-empty list of detection ids and two clients whose
  \<^verbatim>\<open>mark_detection_fixed\<close> call returns (any two responses), both runs return the same
  string, and that string is made of the length of the list and the flag alone.
\<close>

theorem mark_detection_fixed_ignores_response:
  assumes "detection_ids \<noteq> []"
    and "cl (Mark_detection_fixed detection_ids mark_fixed) = Inr r"
    and "cl' (Mark_detection_fixed detection_ids mark_fixed) = Inr r'"
  shows "fst (mark_detection_fixed cl detection_ids mark_fixed)
           = fst (mark_detection_fixed cl' detection_ids mark_fixed)
         \<and> fst (mark_detection_fixed cl detection_ids mark_fixed)
           = Inr (''Marked '' @ str_nat (length detection_ids) @ '' detections as ''
                  @ (if mark_fixed then ''fixed'' else ''not fixed'') @ ''.'')"
  using assms by (simp add: mark_detection_fixed_def)

theorem mark_detection_fixed_ignores_response_witness:
  "[1, 2, 3] \<noteq> ([] :: int list)
   \<and> client_returning PyNone (Mark_detection_fixed [1, 2, 3] True) = Inr PyNone
   \<and> client_returning (PyDict [(''updated'', PyInt 3)]) (Mark_detection_fixed [1, 2, 3] True)
       = Inr (PyDict [(''updated'', PyInt 3)])
   \<and> fst (mark_detection_fixed (client_returning PyNone) [1, 2, 3] True)
       = fst (mark_detection_fixed (client_returning (PyDict [(''updated'', PyInt 3)])) [1, 2, 3] True)
   \<and> fst (mark_detection_fixed (client_returning PyNone) [1, 2, 3] True)
       = Inr ''Marked 3 detections as fixed.''"
  using mark_detection_fixed_ignores_response
          [of "[1, 2, 3]" "client_returning PyNone" True PyNone
              "client_returning (PyDict [(''updated'', PyInt 3)])" "PyDict [(''updated'', PyInt 3)]"]
  by (auto simp add: client_returning_def str_nat_3)

text \<open>
  C2, as the claim states it, fails: when the client returns an empty list, both
  listing operations return the JSON text of the empty list, not the no-results string.
  The test of the source is \<^verbatim>\<open>assignments is None\<close>.
\<close>

theorem empty_collection_not_sentinel:
  "fst (list_assignments_for_user (client_returning (PyList [])) 7 False) = Inr ''[]''
   \<and> fst (list_assignments_for_user (client_returning (PyList [])) 7 False)
       \<noteq> Inr ''No assignments found.''
   \<and> fst (list_assignments validate_date_range (client_returning (PyList [])) False None) = Inr ''[]''
   \<and> fst (list_assignments validate_date_range (client_returning (PyList [])) False None)
       \<noteq> Inr ''No assignments found.''"
  by (simp add: list_assignments_for_user_result
        list_assignments_result [of validate_date_range None None None]
        validate_date_range_absent
        client_returning_def json_dumps_empty_list)

text \<open>
  C2, amended. When validation passes and the client call returns a value, both
  operations return "No assignments found." if that value is \<^verbatim>\<open>None\<close> and the
  two-space-indented JSON text of the value otherwise; for the empty list and the empty
  dict that text is \<^verbatim>\<open>[]\<close> and \<^verbatim>\<open>{}\<close>. Neither operation raises.
\<close>

theorem list_assignments_no_data:
  assumes "vdr created_after None = Inr (sd, ed)"
    and "cl (list_query resolved sd) = Inr v"
    and "cl' (user_query user_id resolved') = Inr v'"
  shows "fst (list_assignments vdr cl resolved created_after)
           = Inr (if v = PyNone then ''No assignments found.'' else json_dumps (Some 2) v)
         \<and> fst (list_assignments_for_user cl' user_id resolved')
           = Inr (if v' = PyNone then ''No assignments found.'' else json_dumps (Some 2) v')
         \<and> json_dumps (Some 2) (PyList []) = ''[]''
         \<and> json_dumps (Some 2) (PyDict []) = ''{}''"
  using assms
  by (simp add: list_assignments_result list_assignments_for_user_result
        json_dumps_empty_list json_dumps_empty_dict)

theorem list_assignments_no_data_witness:
  "validate_date_range None None = Inr (None, None)
   \<and> client_returning PyNone (list_query False None) = Inr PyNone
   \<and> client_returning PyNone (user_query 7 False) = Inr PyNone
   \<and> fst (list_assignments validate_date_range (client_returning PyNone) False None)
       = Inr ''No assignments found.''
   \<and> fst (list_assignments_for_user (client_returning PyNone) 7 False)
       = Inr ''No assignments found.''"
  using list_assignments_no_data
          [of validate_date_range None None None "client_returning PyNone" False PyNone
              "client_returning PyNone" 7 False PyNone]
  by (simp add: validate_date_range_absent client_returning_def)

text \<open>
  C4, as the claim states it, fails for \<^verbatim>\<open>get_assignment_for_entity\<close>: of the mapping
  the client returns, only the value under \<^verbatim>\<open>results\<close> is printed; the other fields
  (here \<^verbatim>\<open>count\<close>) are dropped, with or without indentation.
\<close>

theorem entity_read_prints_results_only:
  "fst (get_assignment_for_entity
          (client_returning (PyDict [(''count'', PyInt 1), (''results'', PyList [PyInt 7])]))
          [10] ''host'')
     = Inr (json_dumps (Some 2) (PyList [PyInt 7]))
   \<and> fst (get_assignment_for_entity
          (client_returning (PyDict [(''count'', PyInt 1), (''results'', PyList [PyInt 7])]))
          [10] ''host'')
     \<noteq> Inr (json_dumps (Some 2) (PyDict [(''count'', PyInt 1), (''results'', PyList [PyInt 7])]))
   \<and> fst (get_assignment_for_entity
          (client_returning (PyDict [(''count'', PyInt 1), (''results'', PyList [PyInt 7])]))
          [10] ''host'')
     \<noteq> Inr (json_dumps None (PyDict [(''count'', PyInt 1), (''results'', PyList [PyInt 7])]))"
  by (simp add: get_assignment_for_entity_valid client_returning_def json_dumps_def)

text \<open>
  C4, amended. For every mapping the client returns, \<^verbatim>\<open>list_assignments\<close> and
  \<^verbatim>\<open>get_assignment_detail_by_id\<close> return exactly its two-space-indented JSON text;
  \<^verbatim>\<open>get_assignment_for_entity\<close> returns exactly the two-space-indented JSON text of
  the value under \<^verbatim>\<open>results\<close>, when that value is truthy.
\<close>

theorem read_operations_output:
  "(vdr created_after None = Inr (sd, ed) \<and> cl (list_query resolved sd) = Inr (PyDict kvs)
      \<longrightarrow> fst (list_assignments vdr cl resolved created_after)
            = Inr (json_dumps (Some 2) (PyDict kvs)))
   \<and> (cl (Get_assignment assignment_id) = Inr (PyDict kvs)
      \<longrightarrow> fst (get_assignment_detail_by_id cl assignment_id)
            = Inr (json_dumps (Some 2) (PyDict kvs)))
   \<and> ((entity_type = ''host'' \<or> entity_type = ''account'')
       \<and> cl (entity_query entity_type entity_ids) = Inr (PyDict kvs)
       \<and> map_of kvs ''results'' = Some results \<and> py_truthy results
      \<longrightarrow> fst (get_assignment_for_entity cl entity_ids entity_type)
            = Inr (json_dumps (Some 2) results))"
  by (simp add: list_assignments_result get_assignment_detail_by_id_result
        get_assignment_for_entity_valid)


theorem read_operations_output_witness:
  "(validate_date_range None None = Inr (None, None)
    \<and> client_returning (PyDict [(''count'', PyInt 1), (''results'', PyList [PyInt 7])])
          (list_query False None)
        = Inr (PyDict [(''count'', PyInt 1), (''results'', PyList [PyInt 7])]))
   \<and> fst (list_assignments validate_date_range
            (client_returning (PyDict [(''count'', PyInt 1), (''results'', PyList [PyInt 7])]))
            False None)
       = Inr (json_dumps (Some 2) (PyDict [(''count'', PyInt 1), (''results'', PyList [PyInt 7])]))
   \<and> fst (get_assignment_detail_by_id
            (client_returning (PyDict [(''count'', PyInt 1), (''results'', PyList [PyInt 7])])) 5)
       = Inr (json_dumps (Some 2) (PyDict [(''count'', PyInt 1), (''results'', PyList [PyInt 7])]))
   \<and> map_of [(''count'', PyInt 1), (''results'', PyList [PyInt 7])] ''results''
       = Some (PyList [PyInt 7])
   \<and> py_truthy (PyList [PyInt 7])
   \<and> fst (get_assignment_for_entity
            (client_returning (PyDict [(''count'', PyInt 1), (''results'', PyList [PyInt 7])]))
            [10, 20] ''host'')
       = Inr (json_dumps (Some 2) (PyList [PyInt 7]))"
  using read_operations_output
          [of validate_date_range None None None
              "client_returning (PyDict [(''count'', PyInt 1), (''results'', PyList [PyInt 7])])"
              False "[(''count'', PyInt 1), (''results'', PyList [PyInt 7])]" 5
              "''host''" "[10, 20]" "PyList [PyInt 7]"]
  by (simp add: validate_date_range_absent client_returning_def)

text \<open>
  C5. With a \<^verbatim>\<open>created_after\<close> string that parses, "2024-01-01T00:00:00" among them,
  the one client call is \<^verbatim>\<open>get_assignments(resolved=..., created_after=...)\<close> with the
  same text as lower bound: formatting the parsed timestamp gives the string back. With
  a string that does not parse, "not-a-date" among them, \<^verbatim>\<open>list_assignments\<close> fails with
  the validator's error, raised again with "Failed to list assignments: " in front, and
  the list of client calls is empty. The validator is the one described by the spec.
\<close>

theorem created_after_bound:
  "(parse_datetime s = Some d \<longrightarrow>
      snd (list_assignments validate_date_range cl resolved (Some s))
        = [Get_assignments [(''resolved'', PyBool resolved), (''created_after'', PyStr s)]])
   \<and> snd (list_assignments validate_date_range cl resolved (Some ''2024-01-01T00:00:00''))
       = [Get_assignments [(''resolved'', PyBool resolved),
                           (''created_after'', PyStr ''2024-01-01T00:00:00'')]]
   \<and> (parse_datetime s' = None \<longrightarrow>
        list_assignments validate_date_range cl resolved (Some s')
          = (Inl (Exception, ''Failed to list assignments: '' @ snd (invalid_date s')), []))
   \<and> parse_datetime ''not-a-date'' = None"
proof -
  have ok: "validate_date_range (Some t) None = Inr (Some e, None)"
    if "parse_datetime t = Some e" for t e
    using that by (simp add: validate_date_range_def parse_bound_def)
  have bad: "validate_date_range (Some t) None = Inl (invalid_date t)"
    if "parse_datetime t = None" for t
    using that by (simp add: validate_date_range_def parse_bound_def)
  have call: "snd (list_assignments validate_date_range cl resolved (Some t))
          = [Get_assignments [(''resolved'', PyBool resolved), (''created_after'', PyStr t)]]"
    if "parse_datetime t = Some e" for t e
    using list_assignments_calls [of validate_date_range "Some t", OF ok [OF that]]
      isoformat_parse_datetime [OF that]
    by (simp add: list_query_def)
  have fail: "list_assignments validate_date_range cl resolved (Some t)
          = (Inl (Exception, ''Failed to list assignments: '' @ snd (invalid_date t)), [])"
    if "parse_datetime t = None" for t
    using list_assignments_invalid [of validate_date_range "Some t", OF bad [OF that]]
    by (simp add: reraise_def py_str_exn_def)
  from call [OF parse_new_year] call fail parse_not_a_date show ?thesis
    by blast
qed

theorem created_after_bound_witness:
  "parse_datetime ''2024-01-01T00:00:00''
     = Some \<lparr>dt_year = 2024, dt_month = 1, dt_day = 1, dt_hour = 0, dt_minute = 0, dt_second = 0\<rparr>
   \<and> snd (list_assignments validate_date_range (client_returning PyNone) False
            (Some ''2024-01-01T00:00:00''))
       = [Get_assignments [(''resolved'', PyBool False),
                           (''created_after'', PyStr ''2024-01-01T00:00:00'')]]
   \<and> parse_datetime ''not-a-date'' = None
   \<and> list_assignments validate_date_range (client_returning PyNone) False (Some ''not-a-date'')
       = (Inl (Exception, ''Failed to list assignments: Invalid date format: not-a-date''), [])"
  using created_after_bound
          [where s = "''2024-01-01T00:00:00''"
             and d = "\<lparr>dt_year = 2024, dt_month = 1, dt_day = 1,
                        dt_hour = 0, dt_minute = 0, dt_second = 0\<rparr>"
             and cl = "client_returning PyNone" and resolved = False
             and s' = "''not-a-date''"]
    parse_new_year
  by (simp add: invalid_date_def)




text \<open>
  C9, as the claim states it, fails in its last part: the sentinel is also returned
  when the value under \<^verbatim>\<open>results\<close> is \<^verbatim>\<open>None\<close> or 0, neither of which is an empty
  collection. The test of the source is \<^verbatim>\<open>not assignments['results']\<close>.
\<close>

theorem falsy_results_give_sentinel:
  "fst (get_assignment_for_entity (client_returning (PyDict [(''results'', PyNone)])) [10, 20] ''host'')
     = Inr ''No assignments found for host: [10, 20].''
   \<and> \<not> py_is_empty PyNone
   \<and> fst (get_assignment_for_entity (client_returning (PyDict [(''results'', PyInt 0)])) [10, 20] ''host'')
     = Inr ''No assignments found for host: [10, 20].''
   \<and> \<not> py_is_empty (PyInt 0)"
  by (simp add: get_assignment_for_entity_valid client_returning_def no_assignments_for_def
        py_repr_int_list_def py_str_int_def str_nat_10 str_nat_20)

text \<open>
  C9, amended. For a valid entity type: when the client returns \<^verbatim>\<open>None\<close> the operation
  raises the wrapped \<^verbatim>\<open>TypeError\<close>; when it returns a mapping without the key
  \<^verbatim>\<open>results\<close> the operation raises the wrapped \<^verbatim>\<open>KeyError\<close>; and the sentinel is
  returned if and only if the client returned a mapping whose value under \<^verbatim>\<open>results\<close>
  is falsy (empty, \<^verbatim>\<open>None\<close>, \<^verbatim>\<open>False\<close> or 0).
\<close>

theorem entity_response_without_results:
  "((entity_type = ''host'' \<or> entity_type = ''account'')
      \<and> cl1 (entity_query entity_type entity_ids) = Inr PyNone
     \<longrightarrow> fst (get_assignment_for_entity cl1 entity_ids entity_type)
          = Inl (Exception, ''Failed to fetch assignment for '' @ entity_type @ '': ''
                   @ py_repr_int_list entity_ids
                   @ '': 'NoneType' object is not subscriptable''))
   \<and> ((entity_type = ''host'' \<or> entity_type = ''account'')
      \<and> cl2 (entity_query entity_type entity_ids) = Inr (PyDict kvs)
      \<and> map_of kvs ''results'' = None
     \<longrightarrow> fst (get_assignment_for_entity cl2 entity_ids entity_type)
          = Inl (Exception, ''Failed to fetch assignment for '' @ entity_type @ '': ''
                   @ py_repr_int_list entity_ids @ '': '' @ quoted ''results''))
   \<and> (fst (get_assignment_for_entity cl3 entity_ids entity_type)
        = Inr (no_assignments_for entity_type entity_ids)
     \<longrightarrow> (\<exists>kvs' v. cl3 (entity_query entity_type entity_ids) = Inr (PyDict kvs')
            \<and> map_of kvs' ''results'' = Some v \<and> \<not> py_truthy v))
   \<and> ((entity_type = ''host'' \<or> entity_type = ''account'')
      \<and> cl4 (entity_query entity_type entity_ids) = Inr (PyDict kvs4)
      \<and> map_of kvs4 ''results'' = Some v4 \<and> \<not> py_truthy v4
     \<longrightarrow> fst (get_assignment_for_entity cl4 entity_ids entity_type)
          = Inr (no_assignments_for entity_type entity_ids))"
proof (intro conjI impI)
  assume "(entity_type = ''host'' \<or> entity_type = ''account'')
      \<and> cl1 (entity_query entity_type entity_ids) = Inr PyNone"
  then show "fst (get_assignment_for_entity cl1 entity_ids entity_type)
          = Inl (Exception, ''Failed to fetch assignment for '' @ entity_type @ '': ''
                   @ py_repr_int_list entity_ids
                   @ '': 'NoneType' object is not subscriptable'')"
    by (simp add: get_assignment_for_entity_valid reraise_message quoted_def)
next
  assume "(entity_type = ''host'' \<or> entity_type = ''account'')
      \<and> cl2 (entity_query entity_type entity_ids) = Inr (PyDict kvs)
      \<and> map_of kvs ''results'' = None"
  then show "fst (get_assignment_for_entity cl2 entity_ids entity_type)
          = Inl (Exception, ''Failed to fetch assignment for '' @ entity_type @ '': ''
                   @ py_repr_int_list entity_ids @ '': '' @ quoted ''results'')"
    by (simp add: get_assignment_for_entity_valid reraise_message)
next
  assume "fst (get_assignment_for_entity cl3 entity_ids entity_type)
        = Inr (no_assignments_for entity_type entity_ids)"
  then show "\<exists>kvs' v. cl3 (entity_query entity_type entity_ids) = Inr (PyDict kvs')
            \<and> map_of kvs' ''results'' = Some v \<and> \<not> py_truthy v"
    by (rule sentinel_only_if)
next
  assume "(entity_type = ''host'' \<or> entity_type = ''account'')
      \<and> cl4 (entity_query entity_type entity_ids) = Inr (PyDict kvs4)
      \<and> map_of kvs4 ''results'' = Some v4 \<and> \<not> py_truthy v4"
  then show "fst (get_assignment_for_entity cl4 entity_ids entity_type)
          = Inr (no_assignments_for entity_type entity_ids)"
    by (simp add: get_assignment_for_entity_valid)
qed


theorem entity_response_without_results_witness:
  "fst (get_assignment_for_entity (client_returning PyNone) [10, 20] ''host'')
     = Inl (Exception,
         ''Failed to fetch assignment for host: [10, 20]: 'NoneType' object is not subscriptable'')
   \<and> map_of [(''count'', PyInt 0)] ''results'' = None
   \<and> fst (get_assignment_for_entity (client_returning (PyDict [(''count'', PyInt 0)])) [10, 20] ''host'')
     = Inl (Exception, ''Failed to fetch assignment for host: [10, 20]: '' @ quoted ''results'')
   \<and> fst (get_assignment_for_entity (client_returning (PyDict [(''results'', PyList [])])) [10, 20] ''host'')
     = Inr ''No assignments found for host: [10, 20].''
   \<and> (\<exists>kvs' v. client_returning (PyDict [(''results'', PyList [])]) (entity_query ''host'' [10, 20])
                   = Inr (PyDict kvs')
            \<and> map_of kvs' ''results'' = Some v \<and> \<not> py_truthy v)"
  using entity_response_without_results
          [where entity_type = "''host''" and entity_ids = "[10, 20]"
             and ?cl1.0 = "client_returning PyNone"
             and ?cl2.0 = "client_returning (PyDict [(''count'', PyInt 0)])"
             and kvs = "[(''count'', PyInt 0)]"
             and ?cl3.0 = "client_returning (PyDict [(''results'', PyList [])])"
             and ?cl4.0 = "client_returning (PyDict [(''results'', PyList [])])"
             and ?kvs4.0 = "[(''results'', PyList [])]" and ?v4.0 = "PyList []"]
  by (simp add: client_returning_def no_assignments_for_def py_repr_int_list_def py_str_int_def
        str_nat_10 str_nat_20)

end
